theory Spec2Isabelle
  imports Complex_Main "HOL-Library.Word"
begin

section \<open>Machine arithmetic of the simulator\<close>

text \<open>
  The simulator (\<^verbatim>\<open>Tachometer_Simulator1.2.cpp\<close>) keeps its RPM and its three time
  counters in C++ \<^verbatim>\<open>int\<close>s, 32 bits wide. They are modelled as \<open>int\<close> values in the
  range \<open>INT_MIN .. INT_MAX\<close>, with the two's complement wrap-around written out.
\<close>

definition INT_MIN :: int where
  "INT_MIN = - 2147483648"

definition INT_MAX :: int where
  "INT_MAX = 2147483647"

definition in_int_range :: "int \<Rightarrow> bool" where
  "in_int_range n \<longleftrightarrow> INT_MIN \<le> n \<and> n \<le> INT_MAX"

text \<open>
  \<^verbatim>\<open>static_cast<int>(n)\<close> of a wider integer, and the result of an \<^verbatim>\<open>int\<close> addition
  that leaves the range: the low 32 bits, read as two's complement. (Signed overflow is
  undefined in C++; the wrap-around is what the compiled program does. Every theorem
  below that needs the absence of overflow says so in a hypothesis.)
\<close>

definition to_int :: "int \<Rightarrow> int" where
  "to_int n = (n + 2147483648) mod 4294967296 - 2147483648"

definition int_add :: "int \<Rightarrow> int \<Rightarrow> int" where
  "int_add a b = to_int (a + b)"

text \<open>C++ integer division and remainder truncate towards zero.\<close>

definition int_div :: "int \<Rightarrow> int \<Rightarrow> int" where
  "int_div a b = sgn a * sgn b * (\<bar>a\<bar> div \<bar>b\<bar>)"

definition int_rem :: "int \<Rightarrow> int \<Rightarrow> int" where
  "int_rem a b = a - b * int_div a b"

text \<open>
  \<^verbatim>\<open>std::lround\<close>: the nearest integer, halfway cases away from zero. Its result type
  is \<^verbatim>\<open>long\<close>; the value below is the mathematical one, which is what the library
  returns whenever it fits into a \<^verbatim>\<open>long\<close> (64 bits). Beyond that the C library
  leaves the result unspecified; every statement below about a rounded value is about
  one that fits.
\<close>

definition lround :: "real \<Rightarrow> int" where
  "lround x = (if 0 \<le> x then \<lfloor>x + 1 / 2\<rfloor> else - \<lfloor>- x + 1 / 2\<rfloor>)"

text \<open>
  A finite \<^verbatim>\<open>double\<close> is a real number. The result of a \<^verbatim>\<open>double\<close> multiplication
  or division is the exact result rounded to a \<^verbatim>\<open>double\<close>; the rounding \<open>fl\<close> is a
  parameter of the model. \<open>fl_ok\<close> is the error bound of IEEE 754 binary64 rounding to
  nearest, for results that do not overflow: a relative error of at most \<open>2\<^sup>-\<^sup>5\<^sup>3\<close>,
  or, for a subnormal result, an absolute error of at most \<open>2\<^sup>-\<^sup>1\<^sup>0\<^sup>7\<^sup>5\<close>.
\<close>

type_synonym double = real

definition fl_ok :: "(real \<Rightarrow> double) \<Rightarrow> bool" where
  "fl_ok fl \<longleftrightarrow>
     (\<forall>x. \<bar>x\<bar> \<le> 2 ^ 1023 \<longrightarrow> \<bar>fl x - x\<bar> \<le> \<bar>x\<bar> / 2 ^ 53 + 1 / 2 ^ 1075)"

definition fmul :: "(real \<Rightarrow> double) \<Rightarrow> double \<Rightarrow> double \<Rightarrow> double" where
  "fmul fl a b = fl (a * b)"

definition fdiv :: "(real \<Rightarrow> double) \<Rightarrow> double \<Rightarrow> double \<Rightarrow> double" where
  "fdiv fl a b = fl (a / b)"

section \<open>Engine power bands\<close>

datatype EnginePowerBand = PowerOff | Idle | Climb | Cruise | Caution | RedLine | OverLimit

fun to_string :: "EnginePowerBand \<Rightarrow> string" where
  "to_string PowerOff = ''PowerOff''"
| "to_string Idle = ''Idle''"
| "to_string Climb = ''Climb''"
| "to_string Cruise = ''Cruise''"
| "to_string Caution = ''Caution''"
| "to_string RedLine = ''RedLine''"
| "to_string OverLimit = ''OverLimit''"

section \<open>EnginePowerModel\<close>

definition Idle_min :: int where "Idle_min = 1000"
definition Idle_max :: int where "Idle_max = 3500"
definition Climb_min :: int where "Climb_min = 3501"
definition Climb_max :: int where "Climb_max = 6000"
definition Cruise_min :: int where "Cruise_min = 6001"
definition Cruise_max :: int where "Cruise_max = 9000"
definition Caution_min :: int where "Caution_min = 9001"
definition Caution_max :: int where "Caution_max = 9799"
definition RedLine_min :: int where "RedLine_min = 9800"
definition RedLine_max :: int where "RedLine_max = 10200"

text \<open>The literal \<^verbatim>\<open>3.141592653589793\<close>, as the \<^verbatim>\<open>double\<close> it is compiled to.\<close>

definition k_pi :: "(real \<Rightarrow> double) \<Rightarrow> double" where
  "k_pi fl = fl (3141592653589793 / 1000000000000000)"

record EnginePowerModel =
  m_raw_rpm :: double
  m_filtered_rpm :: int
  m_powerband :: EnginePowerBand

definition EnginePowerModel_init :: EnginePowerModel where
  "EnginePowerModel_init = \<lparr>m_raw_rpm = 0, m_filtered_rpm = 0, m_powerband = PowerOff\<rparr>"

text \<open>
  The chain of comparisons of \<^verbatim>\<open>update_from_rpm\<close>, on the value of
  \<^verbatim>\<open>m_filtered_rpm\<close>: the band it stores and the lines it prints.
\<close>

definition classify :: "int \<Rightarrow> EnginePowerBand \<times> string list" where
  "classify rpm =
     (if rpm = 0 then (PowerOff, [])
      else if rpm < Idle_min then
        (PowerOff, [''RPM Below Idle: Engine not in normal operating band.''])
      else if rpm \<ge> Idle_min \<and> rpm \<le> Idle_max then
        (Idle, [''Idle: Value is within range.''])
      else if rpm \<ge> Climb_min \<and> rpm \<le> Climb_max then
        (Climb, [''Climb: Value is within range.''])
      else if rpm \<ge> Cruise_min \<and> rpm \<le> Cruise_max then
        (Cruise, [''Cruise: Value is within range.''])
      else if rpm \<ge> Caution_min \<and> rpm \<le> Caution_max then
        (Caution, [''Caution: Engine is reaching Redline.''])
      else if rpm \<ge> RedLine_min \<and> rpm \<le> RedLine_max then
        (RedLine, [''Warning: Engine may overheat.''])
      else
        (OverLimit, [''WARNING: RPM ABOVE Defined RedLine (OverLimit).'']))"

text \<open>The value assigned to the local \<^verbatim>\<open>rpm_value\<close>: \<^verbatim>\<open>(w * 60.0) / (2.0 * k_pi)\<close>.\<close>

definition rpm_value :: "(real \<Rightarrow> double) \<Rightarrow> double \<Rightarrow> double" where
  "rpm_value fl angular_speed_rad_per_sec =
     fdiv fl (fmul fl angular_speed_rad_per_sec 60) (fmul fl 2 (k_pi fl))"

text \<open>
  \<^verbatim>\<open>update_from_rpm\<close>, statement by statement: the new state of the engine object
  and the console lines.
\<close>

definition update_from_rpm ::
  "(real \<Rightarrow> double) \<Rightarrow> double \<Rightarrow> EnginePowerModel \<Rightarrow> EnginePowerModel \<times> string list" where
  "update_from_rpm fl angular_speed_rad_per_sec engine =
     (let engine1 = engine\<lparr>m_raw_rpm := rpm_value fl angular_speed_rad_per_sec\<rparr>;
          engine2 = engine1\<lparr>m_filtered_rpm := to_int (lround (m_raw_rpm engine1))\<rparr>
      in (engine2\<lparr>m_powerband := fst (classify (m_filtered_rpm engine2))\<rparr>,
          snd (classify (m_filtered_rpm engine2))))"

definition filtered_rpm :: "EnginePowerModel \<Rightarrow> int" where
  "filtered_rpm engine = m_filtered_rpm engine"

definition powerband :: "EnginePowerModel \<Rightarrow> EnginePowerBand" where
  "powerband engine = m_powerband engine"

definition isPowerOff :: "EnginePowerModel \<Rightarrow> bool" where
  "isPowerOff engine \<longleftrightarrow> m_powerband engine = PowerOff"

definition raw_rpm :: "EnginePowerModel \<Rightarrow> double" where
  "raw_rpm engine = m_raw_rpm engine"

section \<open>Diagnostic status\<close>

datatype Diagnostic_Status =
  SystemSuccessful | SystemMaintenanceRequired | SystemCheckSystemFailure

text \<open>The members \<^verbatim>\<open>status_\<close>, \<^verbatim>\<open>message_\<close> and \<^verbatim>\<open>code_\<close> of the class.\<close>

record Tachometer_Diagnostic =
  d_status :: Diagnostic_Status
  d_message :: string
  d_code :: int

definition successful :: "string \<Rightarrow> int \<Rightarrow> Tachometer_Diagnostic" where
  "successful msg c = \<lparr>d_status = SystemSuccessful, d_message = msg, d_code = c\<rparr>"

definition maintenance :: "string \<Rightarrow> int \<Rightarrow> Tachometer_Diagnostic" where
  "maintenance msg c = \<lparr>d_status = SystemMaintenanceRequired, d_message = msg, d_code = c\<rparr>"

definition failure :: "string \<Rightarrow> int \<Rightarrow> Tachometer_Diagnostic" where
  "failure msg c = \<lparr>d_status = SystemCheckSystemFailure, d_message = msg, d_code = c\<rparr>"

text \<open>
  The policy at the end of \<^verbatim>\<open>main\<close>, on the two counters it reads from the flight
  hours logger.
\<close>

definition one_minute :: int where "one_minute = 60"
definition one_hour :: int where "one_hour = 60 * one_minute"

definition diagnose :: "int \<Rightarrow> int \<Rightarrow> Tachometer_Diagnostic" where
  "diagnose caution_sec redline_sec =
     (if redline_sec > 4 * one_hour then
        failure ''SYSTEM CHECK: SYSTEM FAILURE - Excessive time in REDLINE/OVERLIMIT'' 2
      else if redline_sec > 1 * one_hour \<or> caution_sec > 3 * one_hour then
        maintenance ''SYSTEM CHECK: MAINTENANCE REQUIRED - Heavy use in CAUTION/REDLINE bands'' 1
      else
        successful ''SYSTEM CHECK: SUCCESSFUL - Engine within expected use profile'' 0)"

section \<open>RPMSource\<close>

text \<open>
  One call of \<^verbatim>\<open>drive_engine\<close> draws twice from the generator: \<open>pick_band\<close> is the
  value of \<^verbatim>\<open>pick_band(rng)\<close>, and \<open>rpm_dist rpm_min rpm_max\<close> the value that
  \<^verbatim>\<open>rpm_dist(rng)\<close> returns for the distribution built on that range. The random
  generator itself is not modelled: its draws are an input.
\<close>

record rng_draw =
  pick_band :: double
  rpm_dist :: "double \<Rightarrow> double \<Rightarrow> double"

datatype console_line =
  Line string
  | DroveEngineLine int double
  | DiagnosticLine string int
  | BandTimesLine int int

text \<open>
  The range chosen by the probability chain: \<^verbatim>\<open>(rpm_min, rpm_max)\<close>. The thresholds
  are the doubles of the literals \<^verbatim>\<open>0.05\<close>, \<^verbatim>\<open>0.20\<close>, ...; the bounds of the
  ranges are integers, which are doubles.
\<close>

definition select_range :: "(real \<Rightarrow> double) \<Rightarrow> double \<Rightarrow> double \<times> double" where
  "select_range fl p =
     (if p < fl (5 / 100) then (0, 900)
      else if p < fl (20 / 100) then (1000, 3500)
      else if p < fl (45 / 100) then (3501, 6000)
      else if p < fl (80 / 100) then (6001, 9000)
      else if p < fl (92 / 100) then (9001, 9799)
      else if p < fl (98 / 100) then (9800, 10200)
      else (10201, 11000))"

text \<open>The conversion \<^verbatim>\<open>(rpm * 2.0 * pi) / 60.0\<close>, with \<^verbatim>\<open>pi\<close> the same literal.\<close>

definition omega_of_rpm :: "(real \<Rightarrow> double) \<Rightarrow> double \<Rightarrow> double" where
  "omega_of_rpm fl rpm = fdiv fl (fmul fl (fmul fl rpm 2) (k_pi fl)) 60"

definition drive_engine ::
  "(real \<Rightarrow> double) \<Rightarrow> rng_draw \<Rightarrow> EnginePowerModel \<Rightarrow> EnginePowerModel \<times> console_line list" where
  "drive_engine fl rng engine =
     (let p = pick_band rng;
          (rpm_min, rpm_max) = select_range fl p;
          rpm = rpm_dist rng rpm_min rpm_max;
          omega = omega_of_rpm fl rpm;
          (engine', out) = update_from_rpm fl omega engine
      in (engine', map Line out @ [DroveEngineLine (filtered_rpm engine') omega]))"

section \<open>Flight hours logger\<close>

record FlightHours =
  total_seconds :: int
  caution_seconds :: int
  redline_seconds :: int

definition FlightHours_init :: FlightHours where
  "FlightHours_init = \<lparr>total_seconds = 0, caution_seconds = 0, redline_seconds = 0\<rparr>"

definition flight_log_hours :: "EnginePowerModel \<Rightarrow> double \<Rightarrow> FlightHours \<Rightarrow> FlightHours" where
  "flight_log_hours engine delta_seconds fh =
     (let band = powerband engine;
          delta = to_int (lround delta_seconds);
          fh1 = (if band \<noteq> PowerOff
                 then fh\<lparr>total_seconds := int_add (total_seconds fh) delta\<rparr> else fh);
          fh2 = (if band = Caution
                 then fh1\<lparr>caution_seconds := int_add (caution_seconds fh1) delta\<rparr> else fh1);
          fh3 = (if band = RedLine \<or> band = OverLimit
                 then fh2\<lparr>redline_seconds := int_add (redline_seconds fh2) delta\<rparr> else fh2)
      in fh3)"

definition hours :: "FlightHours \<Rightarrow> int" where
  "hours fh = int_div (total_seconds fh) 3600"

definition minutes :: "FlightHours \<Rightarrow> int" where
  "minutes fh = int_div (int_rem (total_seconds fh) 3600) 60"

definition seconds :: "FlightHours \<Rightarrow> int" where
  "seconds fh = int_rem (total_seconds fh) 60"

definition caution_time :: "FlightHours \<Rightarrow> int" where
  "caution_time fh = caution_seconds fh"

definition redline_time :: "FlightHours \<Rightarrow> int" where
  "redline_time fh = redline_seconds fh"

text \<open>
  The lines of the CSV file. A data row is kept as the values written between the
  commas, in the order of the columns; their rendering as text is the output stream's.
\<close>

record csv_fields =
  f_time_step :: double
  f_total_seconds :: int
  f_hours :: int
  f_minutes :: int
  f_seconds :: int
  f_rpm :: int
  f_band :: string
  f_caution_seconds :: int
  f_redline_seconds :: int

datatype csv_line = HeaderLine string | DataRow csv_fields

definition csv_header :: csv_line where
  "csv_header = HeaderLine
     ''time_step,total_seconds,hours,minutes,seconds,rpm,band,caution_seconds,redline_seconds''"

definition csv_row :: "FlightHours \<Rightarrow> EnginePowerModel \<Rightarrow> double \<Rightarrow> csv_line" where
  "csv_row fh engine time_step =
     (let rpm = filtered_rpm engine;
          band = powerband engine
      in DataRow \<lparr>f_time_step = time_step,
                  f_total_seconds = total_seconds fh,
                  f_hours = hours fh,
                  f_minutes = minutes fh,
                  f_seconds = seconds fh,
                  f_rpm = rpm,
                  f_band = to_string band,
                  f_caution_seconds = caution_seconds fh,
                  f_redline_seconds = redline_seconds fh\<rparr>)"

fun is_data_row :: "csv_line \<Rightarrow> bool" where
  "is_data_row (DataRow r) = True"
| "is_data_row (HeaderLine h) = False"

section \<open>main\<close>

record sim_state =
  engine :: EnginePowerModel
  flight_hours :: FlightHours
  log_file :: "csv_line list"
  cout :: "console_line list"

definition delta_seconds :: double where
  "delta_seconds = 60"

definition total_ticks :: nat where
  "total_ticks = 50 * 60"

text \<open>One pass through the body of the \<^verbatim>\<open>for\<close> loop of \<^verbatim>\<open>main\<close>.\<close>

definition tick_body :: "(real \<Rightarrow> double) \<Rightarrow> rng_draw \<Rightarrow> nat \<Rightarrow> sim_state \<Rightarrow> sim_state" where
  "tick_body fl rng tick s =
     (let (engine', out) = drive_engine fl rng (engine s);
          fh' = flight_log_hours engine' delta_seconds (flight_hours s)
      in s\<lparr>engine := engine',
            flight_hours := fh',
            log_file := log_file s @ [csv_row fh' engine' (fmul fl (real tick) delta_seconds)],
            cout := cout s @ out\<rparr>)"

text \<open>
  The loop \<^verbatim>\<open>for (int tick = 0; tick < total_ticks; ++tick)\<close>, from the current value
  of \<^verbatim>\<open>tick\<close>; \<open>rpm_source tick\<close> are the draws of that pass. It returns the value of
  \<^verbatim>\<open>tick\<close> at the exit with the state.
\<close>

function tick_loop ::
  "(real \<Rightarrow> double) \<Rightarrow> (nat \<Rightarrow> rng_draw) \<Rightarrow> nat \<Rightarrow> nat \<Rightarrow> sim_state \<Rightarrow> nat \<times> sim_state" where
  "tick_loop fl rpm_source n tick s =
     (if tick < n then tick_loop fl rpm_source n (Suc tick) (tick_body fl (rpm_source tick) tick s)
      else (tick, s))"
  by pat_completeness auto
termination
  by (relation "measure (\<lambda>(fl, rpm_source, n, tick, s). n - tick)") auto

record run_result =
  exit_code :: int
  ticks_run :: nat
  final :: sim_state
  cerr :: "string list"
  diag :: "Tachometer_Diagnostic option"

text \<open>
  \<^verbatim>\<open>main\<close>. \<open>log_file_ok\<close> says whether \<^verbatim>\<open>flight_log.csv\<close> could be opened.
\<close>

definition main ::
  "(real \<Rightarrow> double) \<Rightarrow> (nat \<Rightarrow> rng_draw) \<Rightarrow> bool \<Rightarrow> run_result" where
  "main fl rpm_source log_file_ok =
     (let s0 = \<lparr>engine = EnginePowerModel_init, flight_hours = FlightHours_init,
                log_file = [], cout = []\<rparr>
      in if \<not> log_file_ok then
           \<lparr>exit_code = 1, ticks_run = 0, final = s0,
            cerr = [''Failed to open flight_log.csv''], diag = None\<rparr>
         else
           let s1 = s0\<lparr>log_file := [csv_header]\<rparr>;
               (ticks, s2) = tick_loop fl rpm_source total_ticks 0 s1;
               caution_sec = caution_time (flight_hours s2);
               redline_sec = redline_time (flight_hours s2);
               d = diagnose caution_sec redline_sec;
               s3 = s2\<lparr>cout := cout s2 @
                      [DiagnosticLine (d_message d) (d_code d),
                       BandTimesLine caution_sec redline_sec,
                       Line ''Simulation Finished. Check flight_log.csv'']\<rparr>
           in \<lparr>exit_code = 0, ticks_run = ticks, final = s3, cerr = [], diag = Some d\<rparr>)"

text \<open>A sequence of accumulation steps, each on an engine state and a \<^verbatim>\<open>delta_seconds\<close>.\<close>

fun log_steps :: "(EnginePowerModel \<times> double) list \<Rightarrow> FlightHours \<Rightarrow> FlightHours" where
  "log_steps [] fh = fh"
| "log_steps ((e, d) # steps) fh = log_steps steps (flight_log_hours e d fh)"

section \<open>Conditions and sample states used in the statements\<close>

text \<open>
  A step of the logger stays inside the \<^verbatim>\<open>int\<close> range: the rounded
  \<^verbatim>\<open>delta_seconds\<close> fits, and so does every sum the step stores.
\<close>

definition step_no_overflow :: "EnginePowerModel \<Rightarrow> double \<Rightarrow> FlightHours \<Rightarrow> bool" where
  "step_no_overflow e ds fh \<longleftrightarrow>
     in_int_range (lround ds) \<and>
     (powerband e \<noteq> PowerOff \<longrightarrow> in_int_range (total_seconds fh + lround ds)) \<and>
     (powerband e = Caution \<longrightarrow> in_int_range (caution_seconds fh + lround ds)) \<and>
     (powerband e = RedLine \<or> powerband e = OverLimit \<longrightarrow>
        in_int_range (redline_seconds fh + lround ds))"

text \<open>
  Every sum a step stores fits the \<^verbatim>\<open>int\<close> range, with the delta as the step
  computes it (the cast of the rounded \<^verbatim>\<open>delta_seconds\<close>); and the same along a
  sequence of steps.
\<close>

definition step_sums_fit :: "EnginePowerModel \<Rightarrow> double \<Rightarrow> FlightHours \<Rightarrow> bool" where
  "step_sums_fit e ds fh \<longleftrightarrow>
     (powerband e \<noteq> PowerOff \<longrightarrow> in_int_range (total_seconds fh + to_int (lround ds))) \<and>
     (powerband e = Caution \<longrightarrow> in_int_range (caution_seconds fh + to_int (lround ds))) \<and>
     (powerband e = RedLine \<or> powerband e = OverLimit \<longrightarrow>
        in_int_range (redline_seconds fh + to_int (lround ds)))"

fun steps_sums_fit :: "(EnginePowerModel \<times> double) list \<Rightarrow> FlightHours \<Rightarrow> bool" where
  "steps_sums_fit [] fh = True"
| "steps_sums_fit ((e, d) # steps) fh =
     (step_sums_fit e d fh \<and> steps_sums_fit steps (flight_log_hours e d fh))"

text \<open>
  The state of \<^verbatim>\<open>main\<close> after the first \<open>k\<close> passes of its loop: the loop run from
  the initial state up to \<open>k\<close>.
\<close>

definition run_prefix :: "(real \<Rightarrow> double) \<Rightarrow> (nat \<Rightarrow> rng_draw) \<Rightarrow> nat \<Rightarrow> sim_state" where
  "run_prefix fl rpm_source k =
     snd (tick_loop fl rpm_source k 0
       \<lparr>engine = EnginePowerModel_init, flight_hours = FlightHours_init,
        log_file = [csv_header], cout = []\<rparr>)"

text \<open>The range of the three counters before pass \<open>k\<close> of a run.\<close>

definition counters_inv :: "nat \<Rightarrow> FlightHours \<Rightarrow> bool" where
  "counters_inv k fh \<longleftrightarrow>
     0 \<le> total_seconds fh \<and> total_seconds fh \<le> 60 * int k \<and>
     0 \<le> caution_seconds fh \<and> caution_seconds fh \<le> 60 * int k \<and>
     0 \<le> redline_seconds fh \<and> redline_seconds fh \<le> 60 * int k"

text \<open>The engine after an update at 2000 RPM, and after one at 9500 RPM.\<close>

definition idle_engine :: EnginePowerModel where
  "idle_engine = \<lparr>m_raw_rpm = 2000, m_filtered_rpm = 2000, m_powerband = Idle\<rparr>"

definition caution_engine :: EnginePowerModel where
  "caution_engine = \<lparr>m_raw_rpm = 9500, m_filtered_rpm = 9500, m_powerband = Caution\<rparr>"

text \<open>Draws that pick the band with \<open>p\<close> and the middle of the chosen range.\<close>

definition midpoint_draw :: "double \<Rightarrow> rng_draw" where
  "midpoint_draw p = \<lparr>pick_band = p, rpm_dist = (\<lambda>rpm_min rpm_max. (rpm_min + rpm_max) / 2)\<rparr>"

definition constant_source :: "nat \<Rightarrow> rng_draw" where
  "constant_source tick = midpoint_draw (1 / 2)"

text \<open>The \<^verbatim>\<open>time_step\<close> column of a line of the file.\<close>

fun time_step_of :: "csv_line \<Rightarrow> double option" where
  "time_step_of (DataRow r) = Some (f_time_step r)"
| "time_step_of (HeaderLine h) = None"

text \<open>The invariant of the loop of \<^verbatim>\<open>main\<close> before pass \<open>k\<close>.\<close>

definition tick_inv :: "(real \<Rightarrow> double) \<Rightarrow> nat \<Rightarrow> sim_state \<Rightarrow> bool" where
  "tick_inv fl k s \<longleftrightarrow>
     0 \<le> total_seconds (flight_hours s) \<and>
     total_seconds (flight_hours s) \<le> 60 * int k \<and>
     log_file s \<noteq> [] \<and>
     hd (log_file s) = csv_header \<and>
     map time_step_of (tl (log_file s)) =
       map (\<lambda>tick. Some (fmul fl (real tick) delta_seconds)) [0..<k]"

section \<open>The band table\<close>

lemmas band_consts =
  Idle_min_def Idle_max_def Climb_min_def Climb_max_def Cruise_min_def Cruise_max_def
  Caution_min_def Caution_max_def RedLine_min_def RedLine_max_def

lemma band_of_classify:
  "fst (classify rpm) =
     (if rpm < 1000 then PowerOff
      else if rpm \<le> 3500 then Idle
      else if rpm \<le> 6000 then Climb
      else if rpm \<le> 9000 then Cruise
      else if rpm \<le> 9799 then Caution
      else if rpm \<le> 10200 then RedLine
      else OverLimit)"
  by (simp add: classify_def band_consts)

lemma update_from_rpm_band:
  "m_powerband (fst (update_from_rpm fl w e)) =
     fst (classify (m_filtered_rpm (fst (update_from_rpm fl w e))))"
  by (simp add: update_from_rpm_def Let_def)

lemma raw_rpm_update:
  "m_raw_rpm (fst (update_from_rpm fl w e)) = rpm_value fl w"
  "m_filtered_rpm (fst (update_from_rpm fl w e)) = to_int (lround (rpm_value fl w))"
  by (simp_all add: update_from_rpm_def Let_def)

text \<open>
  C1. For every value of \<^verbatim>\<open>m_filtered_rpm\<close> that an update stores, the band stored
  with it is the one of the partition table: a negative value, 0 and 1..999 give
  PowerOff (1..999 and the negative values with the below-idle line, 0 with none),
  1000..3500 Idle, 3501..6000 Climb, 6001..9000 Cruise, 9001..9799 Caution,
  9800..10200 RedLine, and every value above 10200 OverLimit. The bands are pairwise
  distinct values, so each value of the RPM has exactly one.
\<close>

theorem C1_band_partition:
  "m_powerband (fst (update_from_rpm fl w e)) =
     fst (classify (m_filtered_rpm (fst (update_from_rpm fl w e)))) \<and>
   (r < 0 \<longrightarrow> fst (classify r) = PowerOff) \<and>
   (r = 0 \<longrightarrow> classify r = (PowerOff, [])) \<and>
   (1 \<le> r \<and> r \<le> 999 \<longrightarrow>
      classify r = (PowerOff, [''RPM Below Idle: Engine not in normal operating band.''])) \<and>
   (1000 \<le> r \<and> r \<le> 3500 \<longrightarrow> fst (classify r) = Idle) \<and>
   (3501 \<le> r \<and> r \<le> 6000 \<longrightarrow> fst (classify r) = Climb) \<and>
   (6001 \<le> r \<and> r \<le> 9000 \<longrightarrow> fst (classify r) = Cruise) \<and>
   (9001 \<le> r \<and> r \<le> 9799 \<longrightarrow> fst (classify r) = Caution) \<and>
   (9800 \<le> r \<and> r \<le> 10200 \<longrightarrow> fst (classify r) = RedLine) \<and>
   (10200 < r \<longrightarrow> fst (classify r) = OverLimit)"
  unfolding update_from_rpm_band band_of_classify
  by (simp add: classify_def band_consts)

theorem C1_band_partition_witness:
  "fst (classify (- 1)) = PowerOff \<and> fst (classify 0) = PowerOff \<and>
   fst (classify 999) = PowerOff \<and>
   fst (classify 1000) = Idle \<and> fst (classify 3500) = Idle \<and>
   fst (classify 3501) = Climb \<and> fst (classify 6000) = Climb \<and>
   fst (classify 6001) = Cruise \<and> fst (classify 9000) = Cruise \<and>
   fst (classify 9001) = Caution \<and> fst (classify 9799) = Caution \<and>
   fst (classify 9800) = RedLine \<and> fst (classify 10200) = RedLine \<and>
   fst (classify 10201) = OverLimit"
  using C1_band_partition [of _ _ _ "- 1"] C1_band_partition [of _ _ _ 0]
    C1_band_partition [of _ _ _ 999]
    C1_band_partition [of _ _ _ 1000] C1_band_partition [of _ _ _ 3500]
    C1_band_partition [of _ _ _ 3501] C1_band_partition [of _ _ _ 6000]
    C1_band_partition [of _ _ _ 6001] C1_band_partition [of _ _ _ 9000]
    C1_band_partition [of _ _ _ 9001] C1_band_partition [of _ _ _ 9799]
    C1_band_partition [of _ _ _ 9800] C1_band_partition [of _ _ _ 10200]
    C1_band_partition [of _ _ _ 10201]
  by simp

text \<open>
  C2. The diagnostic policy is evaluated in priority order, the first match winning:
  more than four hours of redline time is a system failure with code 2; otherwise more
  than one hour of redline time or more than three hours of caution time is
  maintenance required with code 1; otherwise the run is successful with code 0. In
  particular 14401 redline seconds give code 2 whatever the caution time, 3601 redline
  seconds and no caution time give code 1, 10801 caution seconds and no redline time
  give code 1, and no time in either gives code 0.
\<close>

theorem C2_diagnostic_priority:
  "diag (main fl rpm_source True) =
     Some (diagnose (caution_seconds (flight_hours (final (main fl rpm_source True))))
       (redline_seconds (flight_hours (final (main fl rpm_source True))))) \<and>
   (redline_sec > 4 * 3600 \<longrightarrow>
      d_status (diagnose caution_sec redline_sec) = SystemCheckSystemFailure \<and>
      d_code (diagnose caution_sec redline_sec) = 2) \<and>
   (\<not> redline_sec > 4 * 3600 \<and> (redline_sec > 1 * 3600 \<or> caution_sec > 3 * 3600) \<longrightarrow>
      d_status (diagnose caution_sec redline_sec) = SystemMaintenanceRequired \<and>
      d_code (diagnose caution_sec redline_sec) = 1) \<and>
   (\<not> redline_sec > 4 * 3600 \<and> \<not> (redline_sec > 1 * 3600 \<or> caution_sec > 3 * 3600) \<longrightarrow>
      d_status (diagnose caution_sec redline_sec) = SystemSuccessful \<and>
      d_code (diagnose caution_sec redline_sec) = 0) \<and>
   d_code (diagnose caution_sec 14401) = 2 \<and>
   d_code (diagnose 0 3601) = 1 \<and>
   d_code (diagnose 10801 0) = 1 \<and>
   d_code (diagnose 0 0) = 0"
  by (simp add: diagnose_def one_hour_def one_minute_def failure_def maintenance_def
      successful_def main_def Let_def case_prod_beta caution_time_def redline_time_def)

theorem C2_diagnostic_priority_witness:
  "d_status (diagnose 20000 14401) = SystemCheckSystemFailure \<and>
   d_code (diagnose 20000 14401) = 2 \<and>
   d_status (diagnose 0 3601) = SystemMaintenanceRequired \<and>
   d_status (diagnose 10801 0) = SystemMaintenanceRequired \<and>
   d_status (diagnose 10800 3600) = SystemSuccessful \<and>
   d_code (diagnose 10800 3600) = 0"
  using C2_diagnostic_priority [of _ _ 14401 20000] C2_diagnostic_priority [of _ _ 3601 0]
    C2_diagnostic_priority [of _ _ 0 10801] C2_diagnostic_priority [of _ _ 3600 10800]
  by simp

section \<open>Rounding and the range of an int\<close>

lemma to_int_id: "in_int_range n \<Longrightarrow> to_int n = n"
  by (simp add: in_int_range_def INT_MIN_def INT_MAX_def to_int_def)

lemma to_int_range: "in_int_range (to_int n)"
  by (simp add: in_int_range_def INT_MIN_def INT_MAX_def to_int_def)

text \<open>The wrap-around written out in \<open>to_int\<close> is the one of a 32-bit machine word.\<close>

lemma to_int_word: "to_int n = sint (word_of_int n :: 32 word)"
proof -
  have "sint (word_of_int n :: 32 word) = signed_take_bit 31 n"
    by (simp add: sint_sbintrunc')
  also have "\<dots> = take_bit 32 (n + 2 ^ 31) - 2 ^ 31"
    by (simp add: signed_take_bit_eq_take_bit_shift)
  also have "\<dots> = to_int n"
    by (simp add: take_bit_eq_mod to_int_def)
  finally show ?thesis by simp
qed

lemma lround_of_int: "lround (of_int n) = n"
  by (simp add: lround_def)

lemma lround_numeral [simp]: "lround (numeral k) = numeral k"
  using lround_of_int [of "numeral k"] by simp

lemma lround_examples:
  "lround (1 / 2) = 1 \<and> lround (- 1 / 2) = - 1 \<and> lround (5 / 2) = 3 \<and>
   lround (- 5 / 2) = - 3 \<and> lround (12 / 5) = 2 \<and> lround (- 12 / 5) = - 2"
  by (simp add: lround_def)

lemma lround_cases:
  "0 \<le> x \<and> of_int (lround x) \<le> x + 1 / 2 \<and> x + 1 / 2 < of_int (lround x) + 1 \<or>
   x < 0 \<and> x - 1 / 2 \<le> of_int (lround x) \<and> of_int (lround x) - 1 < x - 1 / 2"
proof (cases "0 \<le> x")
  case True
  have "of_int \<lfloor>x + 1 / 2\<rfloor> \<le> x + 1 / 2" "x + 1 / 2 < of_int \<lfloor>x + 1 / 2\<rfloor> + 1"
    by linarith+
  with True show ?thesis by (simp add: lround_def)
next
  case False
  define n where "n = \<lfloor>- x + 1 / 2\<rfloor>"
  have "of_int n \<le> - x + 1 / 2" "- x + 1 / 2 < of_int n + 1"
    unfolding n_def by linarith+
  moreover have "lround x = - n"
    using False by (simp add: lround_def n_def)
  ultimately show ?thesis using False by simp
qed

lemma lround_nearest: "\<bar>of_int (lround x) - x\<bar> \<le> 1 / 2"
  using lround_cases [of x] by linarith

lemma lround_tie_away:
  assumes "\<bar>of_int (lround x) - x\<bar> = 1 / 2"
  shows "\<bar>x\<bar> < \<bar>of_int (lround x)\<bar>"
  using assms lround_cases [of x] by linarith

lemma lround_bounds:
  assumes "of_int a - 1 / 2 < x" and "x < of_int b + 1 / 2"
  shows "a \<le> lround x" and "lround x \<le> b"
proof -
  have "real_of_int a < of_int (lround x) + 1" "real_of_int (lround x) < of_int b + 1"
    using assms lround_cases [of x] by linarith+
  then have "a < lround x + 1" "lround x < b + 1"
    by linarith+
  then show "a \<le> lround x" and "lround x \<le> b" by simp_all
qed

section \<open>The flight hours logger\<close>

lemma flight_log_hours_fields:
  "total_seconds (flight_log_hours e ds fh) =
     (if powerband e \<noteq> PowerOff then int_add (total_seconds fh) (to_int (lround ds))
      else total_seconds fh)"
  "caution_seconds (flight_log_hours e ds fh) =
     (if powerband e = Caution then int_add (caution_seconds fh) (to_int (lround ds))
      else caution_seconds fh)"
  "redline_seconds (flight_log_hours e ds fh) =
     (if powerband e = RedLine \<or> powerband e = OverLimit
      then int_add (redline_seconds fh) (to_int (lround ds))
      else redline_seconds fh)"
  by (simp_all add: flight_log_hours_def Let_def)

text \<open>
  Ten steps of 60 seconds with the engine in the Idle band: 600 seconds in total, none
  in the caution or redline counters, shown as 0 hours, 10 minutes, 0 seconds.
\<close>

lemma accumulation_example:
  "log_steps (replicate 10 (idle_engine, 60)) FlightHours_init =
     \<lparr>total_seconds = 600, caution_seconds = 0, redline_seconds = 0\<rparr> \<and>
   hours (log_steps (replicate 10 (idle_engine, 60)) FlightHours_init) = 0 \<and>
   minutes (log_steps (replicate 10 (idle_engine, 60)) FlightHours_init) = 10 \<and>
   seconds (log_steps (replicate 10 (idle_engine, 60)) FlightHours_init) = 0"
  by (simp add: numeral_eq_Suc flight_log_hours_def Let_def idle_engine_def powerband_def
      FlightHours_init_def int_add_def to_int_def lround_def hours_def minutes_def seconds_def
      int_div_def int_rem_def)

lemmas fixture_simps =
  flight_log_hours_fields idle_engine_def caution_engine_def powerband_def
  FlightHours_init_def int_add_def to_int_def

text \<open>
  C3, as amended. For every engine state and every \<^verbatim>\<open>delta_seconds\<close> such that the
  step stays inside the \<^verbatim>\<open>int\<close> range, the step computes \<open>delta\<close> as
  \<^verbatim>\<open>delta_seconds\<close> rounded to the nearest integer, adds it to \<^verbatim>\<open>total_seconds\<close>
  exactly when the band is not PowerOff, to \<^verbatim>\<open>caution_seconds\<close> exactly when the band
  is Caution, and to \<^verbatim>\<open>redline_seconds\<close> exactly when the band is RedLine or
  OverLimit; every other counter keeps its value.
\<close>

theorem C3_accumulation_step:
  assumes "step_no_overflow e ds fh"
  shows "to_int (lround ds) = lround ds \<and>
    total_seconds (flight_log_hours e ds fh) =
      (if powerband e \<noteq> PowerOff then total_seconds fh + lround ds else total_seconds fh) \<and>
    caution_seconds (flight_log_hours e ds fh) =
      (if powerband e = Caution then caution_seconds fh + lround ds else caution_seconds fh) \<and>
    redline_seconds (flight_log_hours e ds fh) =
      (if powerband e = RedLine \<or> powerband e = OverLimit
       then redline_seconds fh + lround ds else redline_seconds fh)"
  using assms
  by (auto simp: step_no_overflow_def flight_log_hours_fields int_add_def to_int_id)

text \<open>
  C3 as stated fails: at \<^verbatim>\<open>delta_seconds = 4294967296.0\<close> the rounded value is
  4294967296, the cast to \<^verbatim>\<open>int\<close> keeps 0, and the counter of a running engine does
  not move.
\<close>

theorem C3_accumulation_step_counterexample:
  "powerband idle_engine \<noteq> PowerOff \<and> lround 4294967296 = 4294967296 \<and>
   total_seconds (flight_log_hours idle_engine 4294967296 FlightHours_init) = 0 \<and>
   total_seconds (flight_log_hours idle_engine 4294967296 FlightHours_init) \<noteq>
     total_seconds FlightHours_init + lround 4294967296"
  by (simp add: fixture_simps)

theorem C3_accumulation_step_witness:
  "total_seconds (flight_log_hours caution_engine 60
      \<lparr>total_seconds = 600, caution_seconds = 120, redline_seconds = 60\<rparr>) = 660 \<and>
   caution_seconds (flight_log_hours caution_engine 60
      \<lparr>total_seconds = 600, caution_seconds = 120, redline_seconds = 60\<rparr>) = 180 \<and>
   redline_seconds (flight_log_hours caution_engine 60
      \<lparr>total_seconds = 600, caution_seconds = 120, redline_seconds = 60\<rparr>) = 60"
proof -
  have h: "step_no_overflow caution_engine 60
      \<lparr>total_seconds = 600, caution_seconds = 120, redline_seconds = 60\<rparr>"
    by (simp add: step_no_overflow_def in_int_range_def INT_MIN_def INT_MAX_def)
  show ?thesis
    using C3_accumulation_step [OF h] by (simp add: caution_engine_def powerband_def)
qed

lemma step_invariant:
  assumes "step_sums_fit e d fh" and "0 \<le> to_int (lround d)"
    and "caution_seconds fh + redline_seconds fh \<le> total_seconds fh"
  shows "caution_seconds (flight_log_hours e d fh) + redline_seconds (flight_log_hours e d fh)
    \<le> total_seconds (flight_log_hours e d fh)"
  using assms
  by (auto simp: step_sums_fit_def flight_log_hours_fields int_add_def to_int_id)

lemma log_steps_invariant:
  "steps_sums_fit steps fh \<Longrightarrow> \<forall>(e, d) \<in> set steps. 0 \<le> to_int (lround d) \<Longrightarrow>
   caution_seconds fh + redline_seconds fh \<le> total_seconds fh \<Longrightarrow>
   caution_seconds (log_steps steps fh) + redline_seconds (log_steps steps fh)
     \<le> total_seconds (log_steps steps fh)"
proof (induction steps arbitrary: fh)
  case Nil
  then show ?case by simp
next
  case (Cons a steps)
  obtain e d where a: "a = (e, d)" by (cases a)
  from Cons.prems a have ok: "step_sums_fit e d fh"
    and rest: "steps_sums_fit steps (flight_log_hours e d fh)"
    and nn: "0 \<le> to_int (lround d)"
    and all: "\<forall>(e, d) \<in> set steps. 0 \<le> to_int (lround d)"
    by auto
  from step_invariant [OF ok nn Cons.prems(3)] Cons.IH [OF rest all] a
  show ?case by simp
qed

text \<open>
  C10, as amended. Starting from the zero counters, after any sequence of steps in which
  the delta each step stores is non-negative and no sum a step stores leaves the
  \<^verbatim>\<open>int\<close> range, the caution and redline times together are at most the total time.
\<close>

theorem C10_caution_redline_le_total:
  assumes "steps_sums_fit steps FlightHours_init"
    and "\<forall>(e, d) \<in> set steps. 0 \<le> to_int (lround d)"
  shows "caution_seconds (log_steps steps FlightHours_init) +
      redline_seconds (log_steps steps FlightHours_init)
    \<le> total_seconds (log_steps steps FlightHours_init)"
  using log_steps_invariant [OF assms] by (simp add: FlightHours_init_def)

text \<open>
  C10 as stated fails: after a Caution step of 2147483647 seconds and an Idle step of
  one second, both with non-negative rounded deltas, the total has wrapped around to
  -2147483648 while the caution time is 2147483647.
\<close>

theorem C10_caution_redline_le_total_counterexample:
  "0 \<le> to_int (lround 2147483647) \<and> 0 \<le> to_int (lround 1) \<and>
   total_seconds (log_steps [(caution_engine, 2147483647), (idle_engine, 1)] FlightHours_init)
     = - 2147483648 \<and>
   caution_seconds (log_steps [(caution_engine, 2147483647), (idle_engine, 1)] FlightHours_init)
     = 2147483647 \<and>
   redline_seconds (log_steps [(caution_engine, 2147483647), (idle_engine, 1)] FlightHours_init)
     = 0 \<and>
   \<not> caution_seconds (log_steps [(caution_engine, 2147483647), (idle_engine, 1)] FlightHours_init) +
      redline_seconds (log_steps [(caution_engine, 2147483647), (idle_engine, 1)] FlightHours_init)
    \<le> total_seconds (log_steps [(caution_engine, 2147483647), (idle_engine, 1)] FlightHours_init)"
  by (simp add: fixture_simps lround_def)

theorem C10_caution_redline_le_total_witness:
  "caution_seconds (log_steps [(caution_engine, 60), (idle_engine, 60)] FlightHours_init) +
   redline_seconds (log_steps [(caution_engine, 60), (idle_engine, 60)] FlightHours_init)
     \<le> total_seconds (log_steps [(caution_engine, 60), (idle_engine, 60)] FlightHours_init) \<and>
   total_seconds (log_steps [(caution_engine, 60), (idle_engine, 60)] FlightHours_init) = 120 \<and>
   caution_seconds (log_steps [(caution_engine, 60), (idle_engine, 60)] FlightHours_init) = 60 \<and>
   to_int (lround 4294967301) = 5 \<and>
   caution_seconds (log_steps [(caution_engine, 4294967301)] FlightHours_init) +
   redline_seconds (log_steps [(caution_engine, 4294967301)] FlightHours_init)
     \<le> total_seconds (log_steps [(caution_engine, 4294967301)] FlightHours_init) \<and>
   total_seconds (log_steps [(caution_engine, 4294967301)] FlightHours_init) = 5"
proof -
  have h: "steps_sums_fit [(caution_engine, 60), (idle_engine, 60)] FlightHours_init"
    by (simp add: step_sums_fit_def in_int_range_def INT_MIN_def INT_MAX_def fixture_simps)
  have n: "\<forall>(e, d) \<in> set [(caution_engine, 60), (idle_engine, 60)]. 0 \<le> to_int (lround d)"
    by (simp add: to_int_def)
  have h': "steps_sums_fit [(caution_engine, 4294967301)] FlightHours_init"
    by (simp add: step_sums_fit_def in_int_range_def INT_MIN_def INT_MAX_def fixture_simps)
  have n': "\<forall>(e, d) \<in> set [(caution_engine, 4294967301)]. 0 \<le> to_int (lround d)"
    by (simp add: to_int_def)
  from C10_caution_redline_le_total [OF h n] C10_caution_redline_le_total [OF h' n'] show ?thesis
    by (simp add: fixture_simps)
qed

section \<open>The error of the double arithmetic\<close>

text \<open>
  Exact arithmetic satisfies the bound; it is the rounding used where a statement is
  evaluated at a concrete input.
\<close>

lemma fl_ok_id: "fl_ok id"
  by (simp add: fl_ok_def)

lemma fl_small:
  assumes "fl_ok fl" and "\<bar>x\<bar> \<le> 2 ^ 40"
  shows "\<bar>fl x - x\<bar> \<le> 1 / 4096"
proof -
  have "(2::real) ^ 40 \<le> 2 ^ 1023" by simp
  with assms(2) have "\<bar>x\<bar> \<le> 2 ^ 1023" by linarith
  with assms(1) have "\<bar>fl x - x\<bar> \<le> \<bar>x\<bar> / 2 ^ 53 + 1 / 2 ^ 1075"
    by (simp add: fl_ok_def)
  also have "\<dots> \<le> 2 ^ 40 / 2 ^ 53 + 1 / 2 ^ 1075"
    using assms(2) by (simp add: divide_right_mono)
  also have "\<dots> \<le> 1 / 4096" by simp
  finally show ?thesis .
qed

lemma fl_rel:
  assumes "fl_ok fl" and "0 \<le> x" and "x \<le> 8"
  shows "\<bar>fl x - x\<bar> \<le> 1 / 2 ^ 49"
proof -
  have "(8::real) \<le> 2 ^ 1023" by simp
  with assms have "\<bar>x\<bar> \<le> 2 ^ 1023" by linarith
  with assms(1) have "\<bar>fl x - x\<bar> \<le> \<bar>x\<bar> / 2 ^ 53 + 1 / 2 ^ 1075"
    by (simp add: fl_ok_def)
  also have "\<dots> \<le> 8 / 2 ^ 53 + 1 / 2 ^ 1075"
    using assms by (simp add: divide_right_mono)
  also have "\<dots> \<le> 1 / 2 ^ 49" by simp
  finally show ?thesis .
qed

lemma abs_mult_le:
  fixes p q :: real
  assumes "\<bar>p\<bar> \<le> P" and "\<bar>q\<bar> \<le> Q"
  shows "\<bar>p * q\<bar> \<le> P * Q"
proof -
  have "0 \<le> P" using assms(1) by linarith
  then show ?thesis
    unfolding abs_mult using assms by (intro mult_mono) auto
qed

lemma k_pi_bounds:
  assumes "fl_ok fl"
  shows "\<bar>k_pi fl - 3141592653589793 / 1000000000000000\<bar> \<le> 1 / 2 ^ 49"
    and "3 \<le> k_pi fl" and "k_pi fl \<le> 4"
proof -
  define pi_literal :: real where "pi_literal = 3141592653589793 / 1000000000000000"
  have "0 \<le> pi_literal" "pi_literal \<le> 8" by (simp_all add: pi_literal_def)
  from fl_rel [OF assms this] have 1: "\<bar>k_pi fl - pi_literal\<bar> \<le> 1 / 2 ^ 49"
    by (simp add: k_pi_def pi_literal_def)
  then show "\<bar>k_pi fl - 3141592653589793 / 1000000000000000\<bar> \<le> 1 / 2 ^ 49"
    by (simp add: pi_literal_def)
  have "3 + 1 / 2 ^ 49 \<le> pi_literal" "pi_literal + 1 / 2 ^ 49 \<le> 4"
    by (simp_all add: pi_literal_def)
  with 1 show "3 \<le> k_pi fl" "k_pi fl \<le> 4" by linarith+
qed

lemma two_k_pi_bounds:
  assumes "fl_ok fl"
  shows "\<bar>fmul fl 2 (k_pi fl) - 2 * k_pi fl\<bar> \<le> 1 / 2 ^ 49" and "5 \<le> fmul fl 2 (k_pi fl)"
    and "fmul fl 2 (k_pi fl) \<le> 9"
proof -
  note k = k_pi_bounds [OF assms]
  have "0 \<le> 2 * k_pi fl" "2 * k_pi fl \<le> 8" using k by linarith+
  from fl_rel [OF assms this] show 1: "\<bar>fmul fl 2 (k_pi fl) - 2 * k_pi fl\<bar> \<le> 1 / 2 ^ 49"
    by (simp add: fmul_def)
  have "(1::real) / 2 ^ 49 \<le> 1" by simp
  with 1 k show "5 \<le> fmul fl 2 (k_pi fl)" "fmul fl 2 (k_pi fl) \<le> 9" by linarith+
qed

lemma omega_error:
  assumes ok: "fl_ok fl" and r0: "0 \<le> rpm" and r1: "rpm \<le> 2 ^ 31"
  shows "\<bar>omega_of_rpm fl rpm - rpm * 2 * k_pi fl / 60\<bar> \<le> 1 / 2048"
proof -
  define a where "a = k_pi fl"
  define x1 where "x1 = fl (rpm * 2)"
  define x2 where "x2 = fl (x1 * a)"
  define x3 where "x3 = fl (x2 / 60)"
  have a: "\<bar>a\<bar> \<le> 4" using k_pi_bounds [OF ok] by (simp add: a_def)
  have "\<bar>rpm * 2\<bar> \<le> 2 ^ 40" using r0 r1 by simp
  from fl_small [OF ok this] have e1: "\<bar>x1 - rpm * 2\<bar> \<le> 1 / 4096"
    by (simp add: x1_def)
  have b1: "\<bar>x1\<bar> \<le> 2 ^ 33" using e1 r0 r1 by (simp, linarith)
  from abs_mult_le [OF b1 a] have b1a: "\<bar>x1 * a\<bar> \<le> 2 ^ 35" by simp
  then have "\<bar>x1 * a\<bar> \<le> 2 ^ 40" by simp
  from fl_small [OF ok this] have e2: "\<bar>x2 - x1 * a\<bar> \<le> 1 / 4096"
    by (simp add: x2_def)
  have b2: "\<bar>x2\<bar> \<le> 2 ^ 36" using e2 b1a by (simp, linarith)
  then have "\<bar>x2 / 60\<bar> \<le> 2 ^ 40" by simp
  from fl_small [OF ok this] have e3: "\<bar>x3 - x2 / 60\<bar> \<le> 1 / 4096"
    by (simp add: x3_def)
  have "\<bar>(x1 - rpm * 2) * a\<bar> \<le> 1 / 4096 * 4"
    by (rule abs_mult_le [OF e1 a])
  then have e12: "\<bar>x1 * a - rpm * 2 * a\<bar> \<le> 1 / 1024"
    by (simp add: algebra_simps)
  have "\<bar>x3 - rpm * 2 * a / 60\<bar> \<le> 1 / 2048"
    using e3 e2 e12 by linarith
  then show ?thesis
    by (simp add: omega_of_rpm_def fmul_def fdiv_def x3_def x2_def x1_def a_def)
qed

lemma rpm_value_error:
  assumes ok: "fl_ok fl" and w: "\<bar>w\<bar> \<le> 2 ^ 29"
  shows "\<bar>rpm_value fl w - w * 60 / (2 * k_pi fl)\<bar> \<le> 1 / 2048"
proof -
  define a where "a = k_pi fl"
  define d where "d = fmul fl 2 (k_pi fl)"
  define y1 where "y1 = fl (w * 60)"
  define y2 where "y2 = fl (y1 / d)"
  have a: "3 \<le> a" "a \<le> 4" using k_pi_bounds [OF ok] by (simp_all add: a_def)
  have d: "\<bar>d - 2 * a\<bar> \<le> 1 / 2 ^ 49" "5 \<le> d"
    using two_k_pi_bounds [OF ok] by (simp_all add: d_def a_def)
  have "\<bar>w * 60\<bar> \<le> 2 ^ 40" using w by (simp add: abs_mult)
  from fl_small [OF ok this] have e1: "\<bar>y1 - w * 60\<bar> \<le> 1 / 4096"
    by (simp add: y1_def)
  have b1: "\<bar>y1\<bar> \<le> 2 ^ 36" using e1 w by (simp, linarith)
  have "\<bar>y1 / d\<bar> = \<bar>y1\<bar> / d" using d(2) by simp
  also have "\<dots> \<le> \<bar>y1\<bar> / 5" using d(2) by (intro divide_left_mono) auto
  finally have "\<bar>y1 / d\<bar> \<le> 2 ^ 40" using b1 by (simp, linarith)
  from fl_small [OF ok this] have e2: "\<bar>y2 - y1 / d\<bar> \<le> 1 / 4096"
    by (simp add: y2_def)
  have w60: "\<bar>w * 60\<bar> \<le> 2 ^ 35" using w by (simp add: abs_mult)
  have "\<bar>(w * 60) * (2 * a - d)\<bar> \<le> 2 ^ 35 * (1 / 2 ^ 49)"
    using d(1) by (intro abs_mult_le [OF w60]) (simp add: abs_minus_commute)
  then have n2: "\<bar>(w * 60) * (2 * a - d)\<bar> \<le> 1 / 2 ^ 14" by simp
  have num: "\<bar>(y1 - w * 60) * (2 * a) + (w * 60) * (2 * a - d)\<bar> \<le> 1 / 4096 * 8 + 1 / 2 ^ 14"
  proof -
    have "\<bar>(y1 - w * 60) * (2 * a)\<bar> \<le> 1 / 4096 * 8"
      using a by (intro abs_mult_le [OF e1]) simp
    with n2 show ?thesis by linarith
  qed
  have den: "30 \<le> d * (2 * a)"
  proof -
    have "5 * 6 \<le> d * (2 * a)" using d(2) a by (intro mult_mono) auto
    then show ?thesis by simp
  qed
  have eq: "y1 / d - w * 60 / (2 * a) = ((y1 - w * 60) * (2 * a) + (w * 60) * (2 * a - d)) / (d * (2 * a))"
    using d(2) a by (simp add: field_simps)
  have "\<bar>y1 / d - w * 60 / (2 * a)\<bar> \<le> (1 / 4096 * 8 + 1 / 2 ^ 14) / 30"
    unfolding eq abs_divide using num den
    by (intro frac_le) auto
  then have "\<bar>y1 / d - w * 60 / (2 * a)\<bar> \<le> 1 / 4096" by simp
  with e2 have "\<bar>y2 - w * 60 / (2 * a)\<bar> \<le> 1 / 2048" by linarith
  then show ?thesis
    by (simp add: rpm_value_def fmul_def fdiv_def y2_def y1_def d_def a_def)
qed

lemma roundtrip_error:
  assumes ok: "fl_ok fl" and r0: "0 \<le> rpm" and r1: "rpm \<le> 2 ^ 31"
  shows "\<bar>rpm_value fl (omega_of_rpm fl rpm) - rpm\<bar> \<le> 1 / 64"
proof -
  define a where "a = k_pi fl"
  define w where "w = omega_of_rpm fl rpm"
  have a: "3 \<le> a" "a \<le> 4" using k_pi_bounds [OF ok] by (simp_all add: a_def)
  have ew: "\<bar>w - rpm * 2 * a / 60\<bar> \<le> 1 / 2048"
    using omega_error [OF ok r0 r1] by (simp add: w_def a_def)
  have "\<bar>rpm * a\<bar> \<le> 2 ^ 31 * 4"
    using r0 r1 a by (intro abs_mult_le) auto
  then have "\<bar>rpm * 2 * a / 60\<bar> \<le> 2 ^ 29 - 1" by (simp add: mult.commute)
  moreover have "(2::real) ^ 29 = 536870912" by simp
  ultimately have "\<bar>w\<bar> \<le> 2 ^ 29" using ew by linarith
  from rpm_value_error [OF ok this]
  have ev: "\<bar>rpm_value fl w - w * 60 / (2 * a)\<bar> \<le> 1 / 2048"
    by (simp add: a_def)
  have eq: "w * 60 / (2 * a) - rpm = (w - rpm * 2 * a / 60) * (30 / a)"
    using a by (simp add: field_simps)
  have "\<bar>30 / a\<bar> \<le> 10"
    using a by (simp add: field_simps)
  from abs_mult_le [OF ew this] have "\<bar>w * 60 / (2 * a) - rpm\<bar> \<le> 10 / 2048"
    unfolding eq by simp
  with ev have "\<bar>rpm_value fl w - rpm\<bar> \<le> 11 / 2048" by linarith
  then show ?thesis by (simp add: w_def)
qed

lemma filtered_in_range:
  assumes ok: "fl_ok fl" and "of_int a \<le> rpm" and "rpm \<le> of_int b"
    and "0 \<le> a" and "b \<le> INT_MAX"
  shows "a \<le> m_filtered_rpm (fst (update_from_rpm fl (omega_of_rpm fl rpm) e))"
    and "m_filtered_rpm (fst (update_from_rpm fl (omega_of_rpm fl rpm) e)) \<le> b"
proof -
  define raw where "raw = rpm_value fl (omega_of_rpm fl rpm)"
  have "(0::real) \<le> of_int a" using assms(4) by simp
  then have r0: "0 \<le> rpm" using assms(2) by linarith
  have "(of_int b :: real) \<le> of_int INT_MAX" using assms(5) by (simp only: of_int_le_iff)
  then have r1: "rpm \<le> 2 ^ 31" using assms(3) by (simp add: INT_MAX_def)
  from roundtrip_error [OF ok r0 r1] have "\<bar>raw - rpm\<bar> \<le> 1 / 64"
    by (simp add: raw_def)
  with assms(2,3) have "of_int a - 1 / 2 < raw" "raw < of_int b + 1 / 2" by linarith+
  from lround_bounds [OF this] have lb: "a \<le> lround raw" "lround raw \<le> b" .
  with assms(4,5) have "in_int_range (lround raw)"
    by (simp add: in_int_range_def INT_MIN_def INT_MAX_def)
  then have "to_int (lround raw) = lround raw"
    by (simp add: in_int_range_def INT_MIN_def INT_MAX_def to_int_def)
  with lb show "a \<le> m_filtered_rpm (fst (update_from_rpm fl (omega_of_rpm fl rpm) e))"
    and "m_filtered_rpm (fst (update_from_rpm fl (omega_of_rpm fl rpm) e)) \<le> b"
    by (simp_all add: raw_rpm_update raw_def)
qed

lemma fixtures_reachable:
  "fst (update_from_rpm id (omega_of_rpm id 2000) EnginePowerModel_init) = idle_engine"
  "fst (update_from_rpm id (omega_of_rpm id 9500) EnginePowerModel_init) = caution_engine"
  by (simp_all add: update_from_rpm_def rpm_value_def omega_of_rpm_def Let_def fmul_def fdiv_def
      k_pi_def lround_def to_int_def classify_def band_consts EnginePowerModel_init_def
      idle_engine_def caution_engine_def)

section \<open>Conversion and rounding\<close>

text \<open>
  C4, as amended. For every angular speed whose RPM rounds to a value of the
  \<^verbatim>\<open>int\<close> range, the update stores as \<^verbatim>\<open>m_raw_rpm\<close> the unrounded result of the
  double computation \<^verbatim>\<open>(w * 60.0) / (2.0 * k_pi)\<close>, \<^verbatim>\<open>k_pi\<close> being the literal
  3.141592653589793 (under the error bound of double rounding, and for speeds up to
  \<open>2\<^sup>2\<^sup>9\<close> rad/s, within \<open>2\<^sup>-\<^sup>1\<^sup>1\<close> of the exact quotient), and as
  \<^verbatim>\<open>m_filtered_rpm\<close> the integer nearest to \<^verbatim>\<open>m_raw_rpm\<close>, a tie going to the
  integer away from zero.
\<close>

theorem C4_conversion_and_rounding:
  assumes "in_int_range (lround (m_raw_rpm (fst (update_from_rpm fl w e))))"
  shows "m_raw_rpm (fst (update_from_rpm fl w e)) = fdiv fl (fmul fl w 60) (fmul fl 2 (k_pi fl)) \<and>
    (fl_ok fl \<and> \<bar>w\<bar> \<le> 2 ^ 29 \<longrightarrow>
       \<bar>m_raw_rpm (fst (update_from_rpm fl w e)) - w * 60 / (2 * k_pi fl)\<bar> \<le> 1 / 2048) \<and>
    m_filtered_rpm (fst (update_from_rpm fl w e)) = lround (m_raw_rpm (fst (update_from_rpm fl w e))) \<and>
    \<bar>of_int (m_filtered_rpm (fst (update_from_rpm fl w e))) - m_raw_rpm (fst (update_from_rpm fl w e))\<bar>
       \<le> 1 / 2 \<and>
    (\<bar>of_int (m_filtered_rpm (fst (update_from_rpm fl w e))) - m_raw_rpm (fst (update_from_rpm fl w e))\<bar>
       = 1 / 2 \<longrightarrow>
     \<bar>m_raw_rpm (fst (update_from_rpm fl w e))\<bar> <
       \<bar>of_int (m_filtered_rpm (fst (update_from_rpm fl w e)))\<bar>)"
proof -
  have f: "m_filtered_rpm (fst (update_from_rpm fl w e)) =
      lround (m_raw_rpm (fst (update_from_rpm fl w e)))"
    using to_int_id [OF assms] by (simp add: raw_rpm_update)
  show ?thesis
    unfolding f using rpm_value_error [of fl w] lround_nearest lround_tie_away
    by (simp add: raw_rpm_update rpm_value_def)
qed

text \<open>
  C4 as stated fails: \<open>10\<^sup>9\<close> rad/s is a finite angular speed, its RPM rounds to
  9549296586, and \<^verbatim>\<open>m_filtered_rpm\<close>, an \<^verbatim>\<open>int\<close>, holds 959361994.
\<close>

theorem C4_conversion_and_rounding_counterexample:
  "m_raw_rpm (fst (update_from_rpm id 1000000000 EnginePowerModel_init)) =
     30000000000000000000000000 / 3141592653589793 \<and>
   lround (m_raw_rpm (fst (update_from_rpm id 1000000000 EnginePowerModel_init))) = 9549296586 \<and>
   m_filtered_rpm (fst (update_from_rpm id 1000000000 EnginePowerModel_init)) = 959361994 \<and>
   m_filtered_rpm (fst (update_from_rpm id 1000000000 EnginePowerModel_init)) \<noteq>
     lround (m_raw_rpm (fst (update_from_rpm id 1000000000 EnginePowerModel_init)))"
  by (simp add: update_from_rpm_def rpm_value_def Let_def fmul_def fdiv_def k_pi_def lround_def
      to_int_def)

theorem C4_conversion_and_rounding_witness:
  "m_raw_rpm (fst (update_from_rpm id 1 EnginePowerModel_init)) =
     30000000000000000 / 3141592653589793 \<and>
   \<bar>m_raw_rpm (fst (update_from_rpm id 1 EnginePowerModel_init)) - 1 * 60 / (2 * k_pi id)\<bar>
     \<le> 1 / 2048 \<and>
   m_filtered_rpm (fst (update_from_rpm id 1 EnginePowerModel_init)) = 10"
proof -
  have r: "m_raw_rpm (fst (update_from_rpm id 1 EnginePowerModel_init)) =
     30000000000000000 / 3141592653589793"
    by (simp add: update_from_rpm_def rpm_value_def Let_def fmul_def fdiv_def k_pi_def)
  have "in_int_range (lround (m_raw_rpm (fst (update_from_rpm id 1 EnginePowerModel_init))))"
    unfolding r by (simp add: lround_def in_int_range_def INT_MIN_def INT_MAX_def)
  note c = C4_conversion_and_rounding [OF this]
  have "fl_ok id \<and> \<bar>1::real\<bar> \<le> 2 ^ 29"
    using fl_ok_id by simp
  with c
  have a: "\<bar>m_raw_rpm (fst (update_from_rpm id 1 EnginePowerModel_init)) - 1 * 60 / (2 * k_pi id)\<bar>
      \<le> 1 / 2048"
    by blast
  from c have "m_filtered_rpm (fst (update_from_rpm id 1 EnginePowerModel_init)) =
      lround (m_raw_rpm (fst (update_from_rpm id 1 EnginePowerModel_init)))"
    by blast
  then have "m_filtered_rpm (fst (update_from_rpm id 1 EnginePowerModel_init)) = 10"
    unfolding r by (simp add: lround_def)
  with r a show ?thesis by blast
qed

text \<open>
  C5, as amended. Under the error bound of double rounding, for every integer RPM from
  0 to \<open>INT_MAX\<close>, converting it to an angular speed as \<^verbatim>\<open>drive_engine\<close> does and
  updating the engine with that speed stores the same integer in \<^verbatim>\<open>m_filtered_rpm\<close>.
\<close>

theorem C5_round_trip:
  assumes "fl_ok fl" and "0 \<le> rpm" and "rpm \<le> INT_MAX"
  shows "m_filtered_rpm (fst (update_from_rpm fl (omega_of_rpm fl (of_int rpm)) e)) = rpm"
  using filtered_in_range [OF assms(1) _ _ assms(2,3), of "of_int rpm" e] by simp

text \<open>
  C5 as stated fails: 2147483648 is a non-negative integer RPM, and the round trip stores
  -2147483648.
\<close>

theorem C5_round_trip_counterexample:
  "(0::int) \<le> 2147483648 \<and>
   m_filtered_rpm (fst (update_from_rpm id (omega_of_rpm id (of_int 2147483648))
     EnginePowerModel_init)) = - 2147483648"
  by (simp add: update_from_rpm_def rpm_value_def omega_of_rpm_def Let_def fmul_def fdiv_def
      k_pi_def lround_def to_int_def)

theorem C5_round_trip_witness:
  "m_filtered_rpm (fst (update_from_rpm id (omega_of_rpm id (of_int 3500)) EnginePowerModel_init))
     = 3500 \<and>
   m_filtered_rpm (fst (update_from_rpm id (omega_of_rpm id (of_int 2147483647))
     EnginePowerModel_init)) = 2147483647"
  using C5_round_trip [OF fl_ok_id, of 3500 EnginePowerModel_init]
    C5_round_trip [OF fl_ok_id, of 2147483647 EnginePowerModel_init]
  by (simp add: INT_MAX_def)

section \<open>The generator's ranges and the classifier's bands\<close>

lemma drive_engine_engine:
  assumes "select_range fl (pick_band rng) = (lo, hi)"
  shows "fst (drive_engine fl rng e) =
    fst (update_from_rpm fl (omega_of_rpm fl (rpm_dist rng lo hi)) e)"
  using assms by (simp add: drive_engine_def Let_def split: prod.splits)

lemma band_in_range:
  assumes ok: "fl_ok fl" and "of_int a \<le> rpm" and "rpm \<le> of_int b"
    and "0 \<le> a" and "b \<le> INT_MAX"
  shows "\<exists>r. a \<le> r \<and> r \<le> b \<and>
    m_powerband (fst (update_from_rpm fl (omega_of_rpm fl rpm) e)) = fst (classify r)"
  using filtered_in_range [OF assms, of e] update_from_rpm_band by blast

text \<open>
  C6. Under the error bound of double rounding, whenever the RPM drawn lies in the range
  that the probability chain selected, the band the engine holds after
  \<^verbatim>\<open>drive_engine\<close> is the one that range is meant to produce: PowerOff for [0, 900],
  Idle for [1000, 3500], Climb for [3501, 6000], Cruise for [6001, 9000], Caution for
  [9001, 9799], RedLine for [9800, 10200] and OverLimit for [10201, 11000].
\<close>

theorem C6_generator_classifier_consistent:
  assumes ok: "fl_ok fl"
    and sel: "select_range fl (pick_band rng) = (lo, hi)"
    and lo: "lo \<le> rpm_dist rng lo hi" and hi: "rpm_dist rng lo hi \<le> hi"
  shows "(lo, hi, m_powerband (fst (drive_engine fl rng e))) \<in>
    {(0, 900, PowerOff), (1000, 3500, Idle), (3501, 6000, Climb), (6001, 9000, Cruise),
     (9001, 9799, Caution), (9800, 10200, RedLine), (10201, 11000, OverLimit)}"
proof -
  define rpm where "rpm = rpm_dist rng lo hi"
  define band where "band = m_powerband (fst (update_from_rpm fl (omega_of_rpm fl rpm) e))"
  have b: "m_powerband (fst (drive_engine fl rng e)) = band"
    by (simp add: drive_engine_engine [OF sel] band_def rpm_def)
  have range: "\<And>a b. lo = of_int a \<Longrightarrow> hi = of_int b \<Longrightarrow> 0 \<le> a \<Longrightarrow> b \<le> INT_MAX \<Longrightarrow>
      \<exists>r. a \<le> r \<and> r \<le> b \<and> band = fst (classify r)"
    using band_in_range [OF ok, of _ rpm _ e] lo hi by (simp add: rpm_def band_def)
  consider "(lo, hi) = (0, 900)" | "(lo, hi) = (1000, 3500)" | "(lo, hi) = (3501, 6000)"
    | "(lo, hi) = (6001, 9000)" | "(lo, hi) = (9001, 9799)" | "(lo, hi) = (9800, 10200)"
    | "(lo, hi) = (10201, 11000)"
    using sel by (auto simp: select_range_def split: if_splits)
  then show ?thesis
  proof cases
    case 1
    with range [of 0 900] show ?thesis
      unfolding b by (auto simp: INT_MAX_def band_of_classify)
  next
    case 2
    with range [of 1000 3500] show ?thesis
      unfolding b by (auto simp: INT_MAX_def band_of_classify)
  next
    case 3
    with range [of 3501 6000] show ?thesis
      unfolding b by (auto simp: INT_MAX_def band_of_classify)
  next
    case 4
    with range [of 6001 9000] show ?thesis
      unfolding b by (auto simp: INT_MAX_def band_of_classify)
  next
    case 5
    with range [of 9001 9799] show ?thesis
      unfolding b by (auto simp: INT_MAX_def band_of_classify)
  next
    case 6
    with range [of 9800 10200] show ?thesis
      unfolding b by (auto simp: INT_MAX_def band_of_classify)
  next
    case 7
    with range [of 10201 11000] show ?thesis
      unfolding b by (auto simp: INT_MAX_def band_of_classify)
  qed
qed

theorem C6_generator_classifier_consistent_witness:
  "select_range id (pick_band (midpoint_draw (1 / 2))) = (6001, 9000) \<and>
   rpm_dist (midpoint_draw (1 / 2)) 6001 9000 = 15001 / 2 \<and>
   m_powerband (fst (drive_engine id (midpoint_draw (1 / 2)) EnginePowerModel_init)) = Cruise"
proof -
  have s: "select_range id (pick_band (midpoint_draw (1 / 2))) = (6001, 9000)"
    by (simp add: select_range_def midpoint_draw_def)
  have r: "rpm_dist (midpoint_draw (1 / 2)) 6001 9000 = 15001 / 2"
    by (simp add: midpoint_draw_def)
  have "(6001::real) \<le> rpm_dist (midpoint_draw (1 / 2)) 6001 9000"
    "rpm_dist (midpoint_draw (1 / 2)) 6001 9000 \<le> (9000::real)"
    unfolding r by simp_all
  from C6_generator_classifier_consistent [OF fl_ok_id s this, of EnginePowerModel_init] s r show ?thesis
    by simp
qed

section \<open>The run of main\<close>

declare tick_loop.simps [simp del]

lemma lround_delta_seconds: "to_int (lround delta_seconds) = 60"
  by (simp add: delta_seconds_def lround_def to_int_def)

lemma tick_body_fields:
  "flight_hours (tick_body fl rng tick s) =
     flight_log_hours (fst (drive_engine fl rng (engine s))) delta_seconds (flight_hours s)"
  "log_file (tick_body fl rng tick s) =
     log_file s @ [csv_row (flight_hours (tick_body fl rng tick s))
        (fst (drive_engine fl rng (engine s))) (fmul fl (real tick) delta_seconds)]"
  by (simp_all add: tick_body_def Let_def case_prod_beta)

lemma tick_body_total:
  "total_seconds (flight_hours (tick_body fl rng tick s)) = total_seconds (flight_hours s) \<or>
   total_seconds (flight_hours (tick_body fl rng tick s)) =
     int_add (total_seconds (flight_hours s)) 60"
  by (simp add: tick_body_fields(1) flight_log_hours_def Let_def lround_delta_seconds)

lemma tick_body_inv:
  assumes "tick_inv fl k s" and "60 * int (Suc k) \<le> INT_MAX"
  shows "tick_inv fl (Suc k) (tick_body fl rng k s)"
proof -
  from assms have t: "0 \<le> total_seconds (flight_hours s)"
    "total_seconds (flight_hours s) \<le> 60 * int k"
    and l: "log_file s \<noteq> []" "hd (log_file s) = csv_header"
    and m: "map time_step_of (tl (log_file s)) =
       map (\<lambda>tick. Some (fmul fl (real tick) delta_seconds)) [0..<k]"
    by (simp_all add: tick_inv_def)
  have "in_int_range (total_seconds (flight_hours s) + 60)"
    using t assms(2) by (simp add: in_int_range_def INT_MIN_def INT_MAX_def)
  then have "int_add (total_seconds (flight_hours s)) 60 = total_seconds (flight_hours s) + 60"
    by (simp add: int_add_def to_int_id)
  with tick_body_total [of fl rng k s] t
  have t': "0 \<le> total_seconds (flight_hours (tick_body fl rng k s))"
    "total_seconds (flight_hours (tick_body fl rng k s)) \<le> 60 * int (Suc k)"
    by auto
  have l': "log_file (tick_body fl rng k s) \<noteq> []" "hd (log_file (tick_body fl rng k s)) = csv_header"
    using l by (simp_all add: tick_body_fields(2))
  have "map time_step_of (tl (log_file (tick_body fl rng k s))) =
       map (\<lambda>tick. Some (fmul fl (real tick) delta_seconds)) [0..<Suc k]"
    using l m by (simp add: tick_body_fields(2) csv_row_def Let_def)
  with t' l' show ?thesis by (simp add: tick_inv_def)
qed

lemma tick_loop_inv:
  assumes "tick \<le> n" and "tick_inv fl tick s" and "60 * int n \<le> INT_MAX"
  shows "fst (tick_loop fl src n tick s) = n \<and> tick_inv fl n (snd (tick_loop fl src n tick s))"
  using assms
proof (induction fl src n tick s rule: tick_loop.induct)
  case (1 fl src n tick s)
  show ?case
  proof (cases "tick < n")
    case True
    then have "60 * int (Suc tick) \<le> 60 * int n" by simp
    with "1.prems"(3) have "60 * int (Suc tick) \<le> INT_MAX" by linarith
    from tick_body_inv [OF "1.prems"(2) this]
    have "tick_inv fl (Suc tick) (tick_body fl (src tick) tick s)" .
    with "1.IH" [OF True] True "1.prems"(3) show ?thesis
      by (simp add: tick_loop.simps [of fl src n tick s])
  next
    case False
    with "1.prems"(1) have "tick = n" by simp
    with "1.prems"(2) show ?thesis
      by (simp add: tick_loop.simps [of fl src n n s])
  qed
qed

lemma main_run:
  "ticks_run (main fl src True) = total_ticks \<and>
   tick_inv fl total_ticks (final (main fl src True)) \<and>
   exit_code (main fl src True) = 0"
proof -
  define s1 where "s1 = \<lparr>engine = EnginePowerModel_init, flight_hours = FlightHours_init,
      log_file = [csv_header], cout = []\<rparr>"
  have 0: "tick_inv fl 0 s1"
    by (simp add: tick_inv_def s1_def FlightHours_init_def)
  have "60 * int total_ticks \<le> INT_MAX"
    by (simp add: total_ticks_def INT_MAX_def)
  from tick_loop_inv [OF _ 0 this, of src]
  have "fst (tick_loop fl src total_ticks 0 s1) = total_ticks \<and>
      tick_inv fl total_ticks (snd (tick_loop fl src total_ticks 0 s1))"
    by simp
  then show ?thesis
    by (simp add: main_def Let_def case_prod_beta s1_def tick_inv_def)
qed

lemma data_rows:
  assumes "map time_step_of rows = map (\<lambda>tick. Some (f tick)) ks"
  shows "list_all is_data_row rows"
  using assms
proof (induction rows arbitrary: ks)
  case Nil
  then show ?case by simp
next
  case (Cons r rows)
  then obtain k ks' where ks: "ks = k # ks'" by (cases ks) auto
  with Cons.prems have "time_step_of r = Some (f k)"
    and "map time_step_of rows = map (\<lambda>tick. Some (f tick)) ks'" by simp_all
  with Cons.IH [of ks'] show ?case by (cases r) simp_all
qed

section \<open>The counters over a run\<close>

lemma tick_loop_Suc:
  "tick \<le> n \<Longrightarrow> tick_loop fl src (Suc n) tick s =
     (Suc n, tick_body fl (src n) n (snd (tick_loop fl src n tick s)))"
proof (induction fl src n tick s rule: tick_loop.induct)
  case (1 fl src n tick s)
  show ?case
  proof (cases "tick < n")
    case True
    then have "tick_loop fl src (Suc n) tick s =
        tick_loop fl src (Suc n) (Suc tick) (tick_body fl (src tick) tick s)"
      by (simp add: tick_loop.simps [of fl src "Suc n" tick s])
    also have "\<dots> = (Suc n, tick_body fl (src n) n
        (snd (tick_loop fl src n (Suc tick) (tick_body fl (src tick) tick s))))"
      using "1.IH" [OF True] True by simp
    also have "tick_loop fl src n (Suc tick) (tick_body fl (src tick) tick s) =
        tick_loop fl src n tick s"
      using True by (simp add: tick_loop.simps [of fl src n tick s])
    finally show ?thesis .
  next
    case False
    with "1.prems" have eq: "tick = n" by simp
    have a: "tick_loop fl src n n s = (n, s)"
      by (simp add: tick_loop.simps [of fl src n n s])
    have "tick_loop fl src (Suc n) n s = tick_loop fl src (Suc n) (Suc n) (tick_body fl (src n) n s)"
      by (simp add: tick_loop.simps [of fl src "Suc n" n s])
    also have "\<dots> = (Suc n, tick_body fl (src n) n s)"
      by (simp add: tick_loop.simps [of fl src "Suc n" "Suc n"])
    finally show ?thesis unfolding eq by (simp add: a)
  qed
qed

lemma run_prefix_0: "flight_hours (run_prefix fl src 0) = FlightHours_init"
  by (simp add: run_prefix_def tick_loop.simps [of fl src 0 0])

lemma run_prefix_Suc:
  "run_prefix fl src (Suc k) = tick_body fl (src k) k (run_prefix fl src k)"
  by (simp add: run_prefix_def tick_loop_Suc)

lemma main_final_counters:
  "flight_hours (final (main fl src True)) = flight_hours (run_prefix fl src total_ticks)"
  "flight_hours (final (main fl src False)) = FlightHours_init"
  by (simp_all add: main_def Let_def case_prod_beta run_prefix_def)

lemma pass_counters:
  assumes "counters_inv k fh" and "60 * int (Suc k) \<le> INT_MAX"
  shows "counters_inv (Suc k) (flight_log_hours e delta_seconds fh)"
    and "total_seconds fh \<le> total_seconds (flight_log_hours e delta_seconds fh)"
    and "caution_seconds fh \<le> caution_seconds (flight_log_hours e delta_seconds fh)"
    and "redline_seconds fh \<le> redline_seconds (flight_log_hours e delta_seconds fh)"
proof -
  have r: "in_int_range (total_seconds fh + 60)" "in_int_range (caution_seconds fh + 60)"
    "in_int_range (redline_seconds fh + 60)"
    using assms by (simp_all add: counters_inv_def in_int_range_def INT_MIN_def INT_MAX_def)
  have "int_add (total_seconds fh) 60 = total_seconds fh + 60"
    "int_add (caution_seconds fh) 60 = caution_seconds fh + 60"
    "int_add (redline_seconds fh) 60 = redline_seconds fh + 60"
    using r by (simp_all add: int_add_def to_int_id)
  then show "counters_inv (Suc k) (flight_log_hours e delta_seconds fh)"
    and "total_seconds fh \<le> total_seconds (flight_log_hours e delta_seconds fh)"
    and "caution_seconds fh \<le> caution_seconds (flight_log_hours e delta_seconds fh)"
    and "redline_seconds fh \<le> redline_seconds (flight_log_hours e delta_seconds fh)"
    using assms(1)
    by (auto simp: flight_log_hours_fields lround_delta_seconds counters_inv_def)
qed

lemma run_prefix_inv:
  "60 * int k \<le> INT_MAX \<Longrightarrow> counters_inv k (flight_hours (run_prefix fl src k))"
proof (induction k)
  case 0
  show ?case by (simp add: run_prefix_0 counters_inv_def FlightHours_init_def)
next
  case (Suc k)
  then have "counters_inv k (flight_hours (run_prefix fl src k))" by simp
  from pass_counters(1) [OF this Suc.prems] show ?case
    by (simp add: run_prefix_Suc tick_body_fields(1))
qed

lemma run_pass_monotone:
  assumes "k < total_ticks"
  shows "total_seconds (flight_hours (run_prefix fl src k)) \<le>
      total_seconds (flight_hours (run_prefix fl src (Suc k))) \<and>
    caution_seconds (flight_hours (run_prefix fl src k)) \<le>
      caution_seconds (flight_hours (run_prefix fl src (Suc k))) \<and>
    redline_seconds (flight_hours (run_prefix fl src k)) \<le>
      redline_seconds (flight_hours (run_prefix fl src (Suc k)))"
proof -
  from assms have b: "60 * int (Suc k) \<le> INT_MAX"
    by (simp add: total_ticks_def INT_MAX_def)
  then have "60 * int k \<le> INT_MAX" by simp
  from pass_counters(2-4) [OF run_prefix_inv [OF this] b] show ?thesis
    by (simp add: run_prefix_Suc tick_body_fields(1))
qed

text \<open>
  C7, as amended. The three counters are zero at the start of a run, and a step with a
  non-negative \<^verbatim>\<open>delta_seconds\<close> that stays inside the \<^verbatim>\<open>int\<close> range decreases
  none of them. In a run of \<^verbatim>\<open>main\<close> the counters start at zero; a pass of the loop
  changes them only by the step of the logger, with 60 seconds; each of the 3000 passes
  leaves every counter at least as large as it was; the counters at the end of
  \<^verbatim>\<open>main\<close> are those the last pass left; and when the file cannot be opened they
  are still zero.
\<close>

theorem C7_counters_monotone:
  assumes "0 \<le> ds" and "step_no_overflow e ds fh"
  shows "total_seconds FlightHours_init = 0 \<and> caution_seconds FlightHours_init = 0 \<and>
    redline_seconds FlightHours_init = 0 \<and>
    total_seconds fh \<le> total_seconds (flight_log_hours e ds fh) \<and>
    caution_seconds fh \<le> caution_seconds (flight_log_hours e ds fh) \<and>
    redline_seconds fh \<le> redline_seconds (flight_log_hours e ds fh) \<and>
    flight_hours (run_prefix fl rpm_source 0) = FlightHours_init \<and>
    (\<forall>k. run_prefix fl rpm_source (Suc k) =
       tick_body fl (rpm_source k) k (run_prefix fl rpm_source k)) \<and>
    (\<forall>rng k s. flight_hours (tick_body fl rng k s) =
       flight_log_hours (fst (drive_engine fl rng (engine s))) delta_seconds (flight_hours s)) \<and>
    (\<forall>k < 3000.
       total_seconds (flight_hours (run_prefix fl rpm_source k)) \<le>
         total_seconds (flight_hours (run_prefix fl rpm_source (Suc k))) \<and>
       caution_seconds (flight_hours (run_prefix fl rpm_source k)) \<le>
         caution_seconds (flight_hours (run_prefix fl rpm_source (Suc k))) \<and>
       redline_seconds (flight_hours (run_prefix fl rpm_source k)) \<le>
         redline_seconds (flight_hours (run_prefix fl rpm_source (Suc k)))) \<and>
    flight_hours (final (main fl rpm_source True)) =
      flight_hours (run_prefix fl rpm_source 3000) \<and>
    flight_hours (final (main fl rpm_source False)) = FlightHours_init"
proof -
  have tt: "total_ticks = 3000" by (simp add: total_ticks_def)
  have nn: "0 \<le> lround ds"
    using assms(1) by (simp add: lround_def)
  have step: "total_seconds FlightHours_init = 0 \<and> caution_seconds FlightHours_init = 0 \<and>
    redline_seconds FlightHours_init = 0 \<and>
    total_seconds fh \<le> total_seconds (flight_log_hours e ds fh) \<and>
    caution_seconds fh \<le> caution_seconds (flight_log_hours e ds fh) \<and>
    redline_seconds fh \<le> redline_seconds (flight_log_hours e ds fh)"
    using nn assms(2)
    by (auto simp: step_no_overflow_def flight_log_hours_fields int_add_def to_int_id
        FlightHours_init_def)
  have passes: "\<forall>k < 3000.
       total_seconds (flight_hours (run_prefix fl rpm_source k)) \<le>
         total_seconds (flight_hours (run_prefix fl rpm_source (Suc k))) \<and>
       caution_seconds (flight_hours (run_prefix fl rpm_source k)) \<le>
         caution_seconds (flight_hours (run_prefix fl rpm_source (Suc k))) \<and>
       redline_seconds (flight_hours (run_prefix fl rpm_source k)) \<le>
         redline_seconds (flight_hours (run_prefix fl rpm_source (Suc k)))"
  proof (intro allI impI)
    fix k :: nat
    assume "k < 3000"
    then have "k < total_ticks" by (simp only: tt)
    then show "total_seconds (flight_hours (run_prefix fl rpm_source k)) \<le>
         total_seconds (flight_hours (run_prefix fl rpm_source (Suc k))) \<and>
       caution_seconds (flight_hours (run_prefix fl rpm_source k)) \<le>
         caution_seconds (flight_hours (run_prefix fl rpm_source (Suc k))) \<and>
       redline_seconds (flight_hours (run_prefix fl rpm_source k)) \<le>
         redline_seconds (flight_hours (run_prefix fl rpm_source (Suc k)))"
      by (rule run_pass_monotone)
  qed
  have unroll: "\<forall>k. run_prefix fl rpm_source (Suc k) =
       tick_body fl (rpm_source k) k (run_prefix fl rpm_source k)"
    by (intro allI run_prefix_Suc)
  have body: "\<forall>rng k s. flight_hours (tick_body fl rng k s) =
       flight_log_hours (fst (drive_engine fl rng (engine s))) delta_seconds (flight_hours s)"
    by (intro allI tick_body_fields(1))
  have fin: "flight_hours (final (main fl rpm_source True)) =
      flight_hours (run_prefix fl rpm_source 3000)"
    using main_final_counters(1) [of fl rpm_source] by (simp only: tt)
  from step run_prefix_0 [of fl rpm_source] unroll body passes fin
    main_final_counters(2) [of fl rpm_source]
  show ?thesis by blast
qed

text \<open>
  C7 as stated fails: \<^verbatim>\<open>delta_seconds = 3000000000.0\<close> is non-negative, its rounded
  value does not fit an \<^verbatim>\<open>int\<close>, the cast keeps -1294967296, and the total of a
  running engine decreases.
\<close>

theorem C7_counters_monotone_counterexample:
  "(0::real) \<le> 3000000000 \<and> powerband idle_engine \<noteq> PowerOff \<and>
   total_seconds (flight_log_hours idle_engine 3000000000 FlightHours_init) = - 1294967296 \<and>
   total_seconds (flight_log_hours idle_engine 3000000000 FlightHours_init) <
     total_seconds FlightHours_init"
  by (simp add: fixture_simps)

theorem C7_counters_monotone_witness:
  "total_seconds FlightHours_init \<le>
     total_seconds (flight_log_hours caution_engine 60 FlightHours_init) \<and>
   total_seconds (flight_log_hours caution_engine 60 FlightHours_init) = 60 \<and>
   total_seconds (flight_hours (run_prefix id constant_source 2999)) \<le>
     total_seconds (flight_hours (run_prefix id constant_source (Suc 2999)))"
proof -
  have h: "step_no_overflow caution_engine 60 FlightHours_init"
    by (simp add: step_no_overflow_def in_int_range_def INT_MIN_def INT_MAX_def
        FlightHours_init_def)
  have "(0::real) \<le> 60" by simp
  note c = C7_counters_monotone [OF this h, of id constant_source]
  from c have 1: "total_seconds FlightHours_init \<le>
     total_seconds (flight_log_hours caution_engine 60 FlightHours_init)"
    by blast
  have 2: "total_seconds (flight_log_hours caution_engine 60 FlightHours_init) = 60"
    by (simp add: fixture_simps)
  from c have "\<forall>k < 3000.
       total_seconds (flight_hours (run_prefix id constant_source k)) \<le>
         total_seconds (flight_hours (run_prefix id constant_source (Suc k)))"
    by blast
  then have 3: "total_seconds (flight_hours (run_prefix id constant_source 2999)) \<le>
     total_seconds (flight_hours (run_prefix id constant_source (Suc 2999)))"
    by (elim allE [of _ 2999]) simp
  from 1 2 3 show ?thesis by blast
qed

text \<open>
  C8. When the log file opens, the run makes exactly 3000 passes through the loop, each
  accounting for 60 seconds; the file holds the header line followed by exactly 3000
  data rows, the row of pass \<open>tick\<close> carrying the time step \<open>tick * 60\<close>; and the
  final \<^verbatim>\<open>total_seconds\<close> is at most \<open>3000 * 60 = 180000\<close>.
\<close>

theorem C8_run_shape:
  "ticks_run (main fl rpm_source True) = 3000 \<and>
   to_int (lround delta_seconds) = 60 \<and>
   length (log_file (final (main fl rpm_source True))) = 3001 \<and>
   hd (log_file (final (main fl rpm_source True))) = csv_header \<and>
   list_all is_data_row (tl (log_file (final (main fl rpm_source True)))) \<and>
   (\<forall>tick < 3000. time_step_of (log_file (final (main fl rpm_source True)) ! Suc tick) =
      Some (fmul fl (real tick) delta_seconds)) \<and>
   total_seconds (flight_hours (final (main fl rpm_source True))) \<le> 3000 * 60"
proof -
  define lg where "lg = log_file (final (main fl rpm_source True))"
  have tt: "total_ticks = 3000" by (simp add: total_ticks_def)
  from main_run [of fl rpm_source]
  have n: "ticks_run (main fl rpm_source True) = total_ticks"
    and t: "total_seconds (flight_hours (final (main fl rpm_source True))) \<le> 60 * int total_ticks"
    and l: "lg \<noteq> []" "hd lg = csv_header"
    and m: "map time_step_of (tl lg) =
      map (\<lambda>tick. Some (fmul fl (real tick) delta_seconds)) [0..<total_ticks]"
    by (simp_all add: tick_inv_def lg_def)
  from m have "length (map time_step_of (tl lg)) = total_ticks"
    by (simp only: length_map length_upt minus_nat.diff_0)
  then have len_tl: "length (tl lg) = total_ticks" by (simp only: length_map)
  then have "length lg = Suc total_ticks" using l by (cases lg; simp)
  then have len: "length lg = 3001" by (simp add: tt)
  have t': "total_seconds (flight_hours (final (main fl rpm_source True))) \<le> 3000 * 60"
    using t by (simp add: tt)
  have steps: "time_step_of (lg ! Suc tick) = Some (fmul fl (real tick) delta_seconds)"
    if "tick < total_ticks" for tick
  proof -
    have "time_step_of (tl lg ! tick) = map time_step_of (tl lg) ! tick"
      using that len_tl by simp
    also have "\<dots> = Some (fmul fl (real tick) delta_seconds)"
      unfolding m using that by simp
    finally show ?thesis using l by (cases lg; simp)
  qed
  have steps': "\<forall>tick < 3000. time_step_of (lg ! Suc tick) =
      Some (fmul fl (real tick) delta_seconds)"
  proof (intro allI impI)
    fix tick :: nat
    assume "tick < 3000"
    then have "tick < total_ticks" by (simp only: tt)
    then show "time_step_of (lg ! Suc tick) = Some (fmul fl (real tick) delta_seconds)"
      by (rule steps)
  qed
  have n': "ticks_run (main fl rpm_source True) = 3000" using n by (simp only: tt)
  show ?thesis
    unfolding lg_def [symmetric]
    by (intro conjI n' lround_delta_seconds len l(2) data_rows [OF m] steps' t')
qed

theorem C8_run_shape_witness:
  "ticks_run (main id constant_source True) = 3000 \<and>
   length (log_file (final (main id constant_source True))) = 3001 \<and>
   time_step_of (log_file (final (main id constant_source True)) ! 3000) = Some 179940 \<and>
   total_seconds (flight_hours (final (main id constant_source True))) \<le> 180000"
proof -
  note c = C8_run_shape [of id constant_source]
  from c have "\<forall>tick < 3000. time_step_of
      (log_file (final (main id constant_source True)) ! Suc tick) =
      Some (fmul id (real tick) delta_seconds)"
    by (elim conjE)
  then have "time_step_of (log_file (final (main id constant_source True)) ! Suc 2999) =
      Some (fmul id (real 2999) delta_seconds)"
    by (elim allE [of _ 2999]) simp
  then have "time_step_of (log_file (final (main id constant_source True)) ! 3000) = Some 179940"
    by (simp add: fmul_def delta_seconds_def)
  moreover from c have "ticks_run (main id constant_source True) = 3000"
    and "length (log_file (final (main id constant_source True))) = 3001"
    and "total_seconds (flight_hours (final (main id constant_source True))) \<le> 3000 * 60"
    by blast+
  ultimately show ?thesis by simp
qed

text \<open>
  C9. \<^verbatim>\<open>main\<close> returns 0 after the full run and 1 exactly when the log file cannot be
  opened; in that case it returns before the loop: no pass is made, nothing is logged,
  the counters are untouched and no diagnostic is computed.
\<close>

theorem C9_exit_code:
  "exit_code (main fl rpm_source log_file_ok) = (if log_file_ok then 0 else 1) \<and>
   (exit_code (main fl rpm_source log_file_ok) = 1 \<longleftrightarrow> \<not> log_file_ok) \<and>
   (\<not> log_file_ok \<longrightarrow>
      ticks_run (main fl rpm_source log_file_ok) = 0 \<and>
      log_file (final (main fl rpm_source log_file_ok)) = [] \<and>
      flight_hours (final (main fl rpm_source log_file_ok)) = FlightHours_init \<and>
      engine (final (main fl rpm_source log_file_ok)) = EnginePowerModel_init \<and>
      cerr (main fl rpm_source log_file_ok) = [''Failed to open flight_log.csv''] \<and>
      diag (main fl rpm_source log_file_ok) = None) \<and>
   (log_file_ok \<longrightarrow> ticks_run (main fl rpm_source log_file_ok) = 3000)"
proof (cases log_file_ok)
  case True
  with main_run [of fl rpm_source] show ?thesis
    by (simp add: total_ticks_def)
next
  case False
  then show ?thesis by (simp add: main_def Let_def)
qed

theorem C9_exit_code_witness:
  "exit_code (main id constant_source False) = 1 \<and>
   ticks_run (main id constant_source False) = 0 \<and>
   log_file (final (main id constant_source False)) = [] \<and>
   exit_code (main id constant_source True) = 0 \<and>
   ticks_run (main id constant_source True) = 3000"
  using C9_exit_code [of id constant_source False] C9_exit_code [of id constant_source True]
  by simp

end
